theory Spec2Isabelle
  imports Main
begin

section \<open>The deployment script \<open>fabfile.py\<close>\<close>

text \<open>
  The script configures four attributes of the remote-execution library's global
  \<open>env\<close> object and defines five tasks, \<open>stop\<close>, \<open>update\<close>, \<open>build\<close>, \<open>start\<close>
  and \<open>deploy\<close>. Every task is a straight line of calls to the library's \<open>run\<close>,
  two of them inside a \<open>with cd(...)\<close> block.

  The library itself is not part of the repository. Its part in the model is
  \<^item> the record of every call the script makes to \<open>run\<close>: the command string, the
    \<open>pty\<close> argument as written in the script, the \<open>with cd\<close> blocks enclosing the
    call, and the user of \<open>env\<close> under which the call is made;
  \<^item> the reply of the remote side to a call, a parameter of every task: \<open>run\<close>
    either returns (with a status the script never looks at) or raises.
\<close>

subsection \<open>Configuration\<close>

text \<open>The attributes the script sets on \<open>env\<close> (lines 4 to 7).\<close>

record fab_env =
  user :: string
  tsuru_path :: string
  collector_path :: string
  webserverd_path :: string

text \<open>
  The four assignments in their order: the two derived paths are formatted from the
  attribute \<open>tsuru_path\<close> assigned just before, \<open>'%s/collector' % env.tsuru_path\<close>
  and \<open>'%s/api/webserverd' % env.tsuru_path\<close>. The user name and the root path are
  arguments here; the script's own values are in \<open>fabfile_env\<close>.
\<close>

definition configure :: "string \<Rightarrow> string \<Rightarrow> fab_env" where
  "configure u root =
     (let e1 = \<lparr>user = u, tsuru_path = root, collector_path = [], webserverd_path = []\<rparr>;
          e2 = e1\<lparr>collector_path := tsuru_path e1 @ ''/collector''\<rparr>;
          e3 = e2\<lparr>webserverd_path := tsuru_path e2 @ ''/api/webserverd''\<rparr>
      in e3)"

definition fabfile_env :: fab_env where
  "fabfile_env = configure ''ubuntu'' ''/home/ubuntu/.go/src/github.com/timeredbull/tsuru''"

subsection \<open>Remote calls and the session\<close>

text \<open>
  One call of \<open>run\<close>. \<open>pty\<close> is \<open>None\<close> where the script does not pass the argument
  (the library's default applies) and \<open>Some False\<close> for \<open>pty=False\<close>. \<open>scope\<close> lists
  the directories of the enclosing \<open>with cd\<close> blocks, outermost first.
\<close>

record remote_call =
  as_user :: string
  scope :: "string list"
  command :: string
  pty :: "bool option"

text \<open>
  What the library does with a call: \<open>Returned ok\<close> when \<open>run\<close> returns to the script
  (\<open>ok\<close> tells whether the remote command succeeded), \<open>Raised\<close> when \<open>run\<close> raises
  instead of returning. A host answers a call knowing the calls made before it.
\<close>

datatype reply = Returned bool | Raised

type_synonym host = "remote_call list \<Rightarrow> remote_call \<Rightarrow> reply"

datatype error = Abort remote_call

record session =
  env :: fab_env
  dirs :: "string list"
  issued :: "remote_call list"

text \<open>
  A task takes the session and gives it back with its outcome: \<open>Inr ()\<close> when it
  returns, \<open>Inl e\<close> when an exception leaves it. The calls issued stay issued in
  both cases.
\<close>

type_synonym task = "session \<Rightarrow> (error + unit) \<times> session"

definition session0 :: "fab_env \<Rightarrow> session" where
  "session0 e = \<lparr>env = e, dirs = [], issued = []\<rparr>"

text \<open>
  \<open>run(cmd)\<close> and \<open>run(cmd, pty=False)\<close>: the call is issued, then the host's reply
  decides whether \<open>run\<close> returns. The value \<open>run\<close> returns is dropped, as every call
  of the script is a statement of its own.
\<close>

definition run :: "host \<Rightarrow> string \<Rightarrow> bool option \<Rightarrow> task" where
  "run h cmd p s =
     (let c = \<lparr>as_user = user (env s), scope = dirs s, command = cmd, pty = p\<rparr>;
          s' = s\<lparr>issued := issued s @ [c]\<rparr>
      in case h (issued s) c of
           Returned ok \<Rightarrow> (Inr (), s')
         | Raised \<Rightarrow> (Inl (Abort c), s'))"

text \<open>
  Two statements one after the other: the second runs only if the first returns;
  an exception of the first leaves the enclosing function at once. The script has
  no \<open>try\<close>.
\<close>

definition seq :: "task \<Rightarrow> task \<Rightarrow> task" where
  "seq f g s = (case f s of (Inl e, s') \<Rightarrow> (Inl e, s') | (Inr u, s') \<Rightarrow> g s')"

text \<open>
  \<open>with cd(path): body\<close>. The directory is in force inside the block and the
  previous scope is back after it, also when the body raises.
\<close>

definition cd :: "string \<Rightarrow> task \<Rightarrow> task" where
  "cd path body s =
     (case body (s\<lparr>dirs := dirs s @ [path]\<rparr>) of (r, s') \<Rightarrow> (r, s'\<lparr>dirs := dirs s\<rparr>))"

subsection \<open>The tasks\<close>

definition stop :: "host \<Rightarrow> task" where
  "stop h =
     seq (run h ''killall -9 webserverd'' None)
         (run h ''killall -9 collector'' None)"

definition update :: "host \<Rightarrow> task" where
  "update h =
     seq (run h ''go get -u github.com/timeredbull/tsuru/collector'' None)
         (run h ''go get -u github.com/timeredbull/tsuru/api/webserverd'' None)"

definition build :: "host \<Rightarrow> task" where
  "build h =
     seq (\<lambda>s. cd (collector_path (env s)) (run h ''go build -o collector main.go'' None) s)
         (\<lambda>s. cd (webserverd_path (env s)) (run h ''go build -o webserverd main.go'' None) s)"

definition start :: "host \<Rightarrow> task" where
  "start h =
     seq (\<lambda>s. run h (''nohup '' @ collector_path (env s) @ ''/collector >& /dev/null < /dev/null &'')
                 (Some False) s)
         (\<lambda>s. run h (''nohup '' @ webserverd_path (env s) @ ''/webserverd >& /dev/null < /dev/null &'')
                 (Some False) s)"

definition deploy :: "host \<Rightarrow> task" where
  "deploy h = seq (stop h) (seq (update h) (seq (build h) (start h)))"

subsection \<open>Observing a run\<close>

text \<open>The calls a task adds to the session it is started in.\<close>

definition trace_of :: "task \<Rightarrow> session \<Rightarrow> remote_call list" where
  "trace_of f s = drop (length (issued s)) (issued (snd (f s)))"

subsection \<open>Hosts\<close>

text \<open>
  A host on which every command succeeds, and the two ways the library can treat a
  command that fails on the remote side: \<open>run\<close> raises and the script ends
  (\<open>abort_on_failure\<close>), or \<open>run\<close> returns a result marked as failed
  (\<open>warn_on_failure\<close>). \<open>fails\<close> tells which calls fail remotely.
\<close>

definition always_succeeds :: host where
  "always_succeeds tr c = Returned True"

definition abort_on_failure :: "(remote_call \<Rightarrow> bool) \<Rightarrow> host" where
  "abort_on_failure fails tr c = (if fails c then Raised else Returned True)"

definition warn_on_failure :: "(remote_call \<Rightarrow> bool) \<Rightarrow> host" where
  "warn_on_failure fails tr c = Returned (\<not> fails c)"

text \<open>
  A remote machine on which no \<open>webserverd\<close> process is running: \<open>killall\<close> finds
  nothing to kill and exits with a non-zero status.
\<close>

definition webserverd_not_running :: "remote_call \<Rightarrow> bool" where
  "webserverd_not_running c = (command c = ''killall -9 webserverd'')"

text \<open>
  \<open>run\<close> does not complete for the command with the given text: the remote command
  exits with a non-zero status, or the connection is lost while it runs.
\<close>

definition command_fails :: "string \<Rightarrow> remote_call \<Rightarrow> bool" where
  "command_fails cmd c = (command c = cmd)"

subsection \<open>Straight-line scripts\<close>

text \<open>
  A list of calls made one after the other until the host raises at one of them:
  the outcome and the calls that were issued. The tasks are compared with it below.
\<close>

fun issue :: "host \<Rightarrow> remote_call list \<Rightarrow> remote_call list \<Rightarrow> (error + unit) \<times> remote_call list" where
  "issue h before [] = (Inr (), [])"
| "issue h before (c # cs) =
     (case h before c of
        Raised \<Rightarrow> (Inl (Abort c), [c])
      | Returned ok \<Rightarrow> (case issue h (before @ [c]) cs of (r, tr) \<Rightarrow> (r, c # tr)))"

definition script :: "host \<Rightarrow> (session \<Rightarrow> remote_call list) \<Rightarrow> task" where
  "script h cs s =
     (case issue h (issued s) (cs s) of (r, tr) \<Rightarrow> (r, s\<lparr>issued := issued s @ tr\<rparr>))"

section \<open>Every task is a straight-line script\<close>

lemma issue_append:
  "issue h b (xs @ ys) =
     (case issue h b xs of
        (Inl e, tr) \<Rightarrow> (Inl e, tr)
      | (Inr u, tr) \<Rightarrow> (case issue h (b @ tr) ys of (r, tr') \<Rightarrow> (r, tr @ tr')))"
  by (induction xs arbitrary: b) (auto split: reply.splits prod.splits sum.splits)

lemma seq_script:
  assumes f: "\<And>s. f s = script h xs s" and g: "\<And>s. g s = script h ys s"
    and ys: "\<And>s tr. ys (s\<lparr>issued := tr\<rparr>) = ys s"
  shows "seq f g s = script h (\<lambda>s. xs s @ ys s) s"
  by (auto simp: seq_def f g ys script_def issue_append split: prod.splits sum.splits)

lemma stop_script:
  "stop h s = script h (\<lambda>s.
    [\<lparr>as_user = user (env s), scope = dirs s, command = ''killall -9 webserverd'', pty = None\<rparr>,
     \<lparr>as_user = user (env s), scope = dirs s, command = ''killall -9 collector'', pty = None\<rparr>]) s"
  by (simp add: stop_def seq_def run_def script_def Let_def split: reply.splits)

lemma update_script:
  "update h s = script h (\<lambda>s.
    [\<lparr>as_user = user (env s), scope = dirs s,
        command = ''go get -u github.com/timeredbull/tsuru/collector'', pty = None\<rparr>,
     \<lparr>as_user = user (env s), scope = dirs s,
        command = ''go get -u github.com/timeredbull/tsuru/api/webserverd'', pty = None\<rparr>]) s"
  by (simp add: update_def seq_def run_def script_def Let_def split: reply.splits)

lemma build_script:
  "build h s = script h (\<lambda>s.
    [\<lparr>as_user = user (env s), scope = dirs s @ [collector_path (env s)],
        command = ''go build -o collector main.go'', pty = None\<rparr>,
     \<lparr>as_user = user (env s), scope = dirs s @ [webserverd_path (env s)],
        command = ''go build -o webserverd main.go'', pty = None\<rparr>]) s"
  by (simp add: build_def seq_def cd_def run_def script_def Let_def split: reply.splits)

lemma start_script:
  "start h s = script h (\<lambda>s.
    [\<lparr>as_user = user (env s), scope = dirs s,
        command = ''nohup '' @ collector_path (env s) @ ''/collector >& /dev/null < /dev/null &'',
        pty = Some False\<rparr>,
     \<lparr>as_user = user (env s), scope = dirs s,
        command = ''nohup '' @ webserverd_path (env s) @ ''/webserverd >& /dev/null < /dev/null &'',
        pty = Some False\<rparr>]) s"
  by (simp add: start_def seq_def run_def script_def Let_def split: reply.splits)

lemma deploy_script:
  "deploy h s = script h (\<lambda>s.
    [\<lparr>as_user = user (env s), scope = dirs s, command = ''killall -9 webserverd'', pty = None\<rparr>,
     \<lparr>as_user = user (env s), scope = dirs s, command = ''killall -9 collector'', pty = None\<rparr>,
     \<lparr>as_user = user (env s), scope = dirs s,
        command = ''go get -u github.com/timeredbull/tsuru/collector'', pty = None\<rparr>,
     \<lparr>as_user = user (env s), scope = dirs s,
        command = ''go get -u github.com/timeredbull/tsuru/api/webserverd'', pty = None\<rparr>,
     \<lparr>as_user = user (env s), scope = dirs s @ [collector_path (env s)],
        command = ''go build -o collector main.go'', pty = None\<rparr>,
     \<lparr>as_user = user (env s), scope = dirs s @ [webserverd_path (env s)],
        command = ''go build -o webserverd main.go'', pty = None\<rparr>,
     \<lparr>as_user = user (env s), scope = dirs s,
        command = ''nohup '' @ collector_path (env s) @ ''/collector >& /dev/null < /dev/null &'',
        pty = Some False\<rparr>,
     \<lparr>as_user = user (env s), scope = dirs s,
        command = ''nohup '' @ webserverd_path (env s) @ ''/webserverd >& /dev/null < /dev/null &'',
        pty = Some False\<rparr>]) s"
proof -
  note bs = seq_script [OF build_script start_script]
  note ubs = seq_script [OF update_script bs]
  note subs = seq_script [OF stop_script ubs]
  show ?thesis unfolding deploy_def by (simp add: subs)
qed

section \<open>What a script issues\<close>

lemma issue_returns:
  "\<forall>tr c. h tr c \<noteq> Raised \<Longrightarrow> issue h b cs = (Inr (), cs)"
proof (induction cs arbitrary: b)
  case Nil
  show ?case by simp
next
  case (Cons c cs)
  then show ?case by (cases "h b c") simp_all
qed

lemma issue_raise_last:
  "issue h b cs = (r, tr) \<Longrightarrow> i < length tr \<Longrightarrow> h (b @ take i tr) (tr ! i) = Raised \<Longrightarrow>
     Suc i = length tr \<and> r = Inl (Abort (tr ! i))"
proof (induction cs arbitrary: b tr i r)
  case Nil
  then show ?case by simp
next
  case (Cons c cs)
  show ?case
  proof (cases "h b c")
    case Raised
    with Cons.prems show ?thesis by auto
  next
    case (Returned ok)
    obtain r' tr' where rest: "issue h (b @ [c]) cs = (r', tr')"
      by (cases "issue h (b @ [c]) cs")
    with Returned Cons.prems(1) have tr: "tr = c # tr'" and r: "r = r'" by auto
    show ?thesis
    proof (cases i)
      case 0
      with Cons.prems(3) tr Returned show ?thesis by simp
    next
      case (Suc j)
      with Cons.prems tr have "j < length tr'" "h ((b @ [c]) @ take j tr') (tr' ! j) = Raised"
        by simp_all
      from Cons.IH [OF rest this] have "length tr' = Suc j" "r' = Inl (Abort (tr' ! j))"
        by simp_all
      then show ?thesis by (simp add: tr r Suc)
    qed
  qed
qed

lemma issue_Inl:
  "issue h b cs = (Inl e, tr) \<Longrightarrow> tr \<noteq> [] \<and> e = Abort (last tr) \<and> h (b @ butlast tr) (last tr) = Raised"
proof (induction cs arbitrary: b tr)
  case Nil
  then show ?case by simp
next
  case (Cons c cs)
  show ?case
  proof (cases "h b c")
    case Raised
    with Cons.prems show ?thesis by auto
  next
    case (Returned ok)
    obtain r' tr' where rest: "issue h (b @ [c]) cs = (r', tr')"
      by (cases "issue h (b @ [c]) cs")
    with Returned Cons.prems have tr: "tr = c # tr'" and r: "r' = Inl e" by auto
    from Cons.IH [OF rest [unfolded r]] show ?thesis by (simp add: tr)
  qed
qed

lemma fst_script: "fst (script h cs s) = fst (issue h (issued s) (cs s))"
  by (simp add: script_def split: prod.splits)

lemma trace_script: "trace_of (script h cs) s = snd (issue h (issued s) (cs s))"
  by (simp add: script_def trace_of_def split: prod.splits)

lemma env_script: "env (snd (script h cs s)) = env s" "dirs (snd (script h cs s)) = dirs s"
  by (simp_all add: script_def split: prod.splits)

lemma issue_two:
  "snd (issue h b [c1, c2]) = [c1, c2] \<or> snd (issue h b [c1, c2]) = [c1]"
  by (simp split: reply.splits)

lemma script_returns:
  assumes f: "\<And>s. f s = script h cs s" and h: "\<forall>b c. h b c \<noteq> Raised"
  shows "fst (f s) = Inr () \<and> trace_of f s = cs s"
proof -
  have "trace_of f s = trace_of (script h cs) s"
    by (simp add: trace_of_def f)
  then show ?thesis
    by (simp add: f fst_script trace_script issue_returns [OF h])
qed

lemma script_raise_last:
  assumes f: "\<And>s. f s = script h cs s"
    and i: "i < length (trace_of f s)"
    and r: "h (issued s @ take i (trace_of f s)) (trace_of f s ! i) = Raised"
  shows "Suc i = length (trace_of f s) \<and> fst (f s) = Inl (Abort (trace_of f s ! i))"
proof -
  have tr: "trace_of f s = snd (issue h (issued s) (cs s))"
    by (simp add: trace_of_def f script_def split: prod.splits)
  have out: "fst (f s) = fst (issue h (issued s) (cs s))"
    by (simp add: f fst_script)
  from issue_raise_last [OF prod.collapse [symmetric] i [unfolded tr] r [unfolded tr]]
  show ?thesis by (simp add: tr out)
qed

lemma script_raised:
  assumes f: "\<And>s. f s = script h cs s" and e: "fst (f s) = Inl e"
  shows "trace_of f s \<noteq> [] \<and> e = Abort (last (trace_of f s)) \<and>
    h (issued s @ butlast (trace_of f s)) (last (trace_of f s)) = Raised"
proof -
  have tr: "trace_of f s = snd (issue h (issued s) (cs s))"
    by (simp add: trace_of_def f script_def split: prod.splits)
  have "issue h (issued s) (cs s) = (Inl e, snd (issue h (issued s) (cs s)))"
    using e by (simp add: f fst_script prod_eq_iff)
  from issue_Inl [OF this] show ?thesis by (simp add: tr)
qed

lemma session0_sel:
  "env (session0 e) = e" "dirs (session0 e) = []" "issued (session0 e) = []"
  by (simp_all add: session0_def)

lemma deploy_aborted_run:
  "deploy (abort_on_failure webserverd_not_running) (session0 fabfile_env) =
     (Inl (Abort \<lparr>as_user = ''ubuntu'', scope = [], command = ''killall -9 webserverd'', pty = None\<rparr>),
      \<lparr>env = fabfile_env, dirs = [],
         issued = [\<lparr>as_user = ''ubuntu'', scope = [], command = ''killall -9 webserverd'', pty = None\<rparr>]\<rparr>)"
  by (simp add: deploy_script script_def abort_on_failure_def webserverd_not_running_def
      session0_def fabfile_env_def configure_def)











section \<open>Properties\<close>

text \<open>
  C3. For every user name and root path the script is configured with, the
  collector path is the root path followed by \<open>/collector\<close> and the webserver-daemon
  path is the root path followed by \<open>/api/webserverd\<close>.
\<close>

theorem derived_paths:
  "collector_path (configure u root) = root @ ''/collector'' \<and>
   webserverd_path (configure u root) = root @ ''/api/webserverd'' \<and>
   user (configure u root) = u \<and> tsuru_path (configure u root) = root"
  by (simp add: configure_def)

text \<open>
  C4. \<open>stop\<close> issues force-kill commands for the process names \<open>webserverd\<close> and
  \<open>collector\<close> and no other command:
  when \<open>run\<close> returns from the first, the calls are exactly the two, in
  this order; when \<open>run\<close> raises at the first, the first alone is issued and the
  exception leaves \<open>stop\<close>. \<open>stop\<close> returns exactly when \<open>run\<close> raises at neither.
\<close>

theorem stop_issues:
  "let k1 = \<lparr>as_user = user (env s), scope = dirs s, command = ''killall -9 webserverd'', pty = None\<rparr>;
       k2 = \<lparr>as_user = user (env s), scope = dirs s, command = ''killall -9 collector'', pty = None\<rparr>
   in (h (issued s) k1 = Raised \<longrightarrow>
         trace_of (stop h) s = [k1] \<and> fst (stop h s) = Inl (Abort k1)) \<and>
      (h (issued s) k1 \<noteq> Raised \<longrightarrow> trace_of (stop h) s = [k1, k2]) \<and>
      (fst (stop h s) = Inr () \<longleftrightarrow>
         h (issued s) k1 \<noteq> Raised \<and> h (issued s @ [k1]) k2 \<noteq> Raised)"
  unfolding Let_def stop_script trace_script fst_script
  by (simp split: reply.splits prod.splits)

theorem stop_issues_witness:
  "always_succeeds []
     \<lparr>as_user = ''ubuntu'', scope = [], command = ''killall -9 webserverd'', pty = None\<rparr> \<noteq> Raised \<and>
   fst (stop always_succeeds (session0 fabfile_env)) = Inr () \<and>
   trace_of (stop always_succeeds) (session0 fabfile_env) =
     [\<lparr>as_user = ''ubuntu'', scope = [], command = ''killall -9 webserverd'', pty = None\<rparr>,
      \<lparr>as_user = ''ubuntu'', scope = [], command = ''killall -9 collector'', pty = None\<rparr>] \<and>
   abort_on_failure webserverd_not_running []
     \<lparr>as_user = ''ubuntu'', scope = [], command = ''killall -9 webserverd'', pty = None\<rparr> = Raised \<and>
   trace_of (stop (abort_on_failure webserverd_not_running)) (session0 fabfile_env) =
     [\<lparr>as_user = ''ubuntu'', scope = [], command = ''killall -9 webserverd'', pty = None\<rparr>] \<and>
   fst (stop (abort_on_failure webserverd_not_running) (session0 fabfile_env)) =
     Inl (Abort \<lparr>as_user = ''ubuntu'', scope = [], command = ''killall -9 webserverd'', pty = None\<rparr>)"
  using stop_issues [where h = always_succeeds and s = "session0 fabfile_env"]
    stop_issues [where h = "abort_on_failure webserverd_not_running" and s = "session0 fabfile_env"]
  by (simp add: Let_def always_succeeds_def abort_on_failure_def webserverd_not_running_def session0_def
      fabfile_env_def configure_def)

text \<open>
  A run of \<open>stop\<close> in which \<open>run\<close> raises at the first command: one command is
  issued, not two, and the second is never issued.
\<close>

theorem stop_issues_counterexample:
  "abort_on_failure webserverd_not_running []
     \<lparr>as_user = ''ubuntu'', scope = [], command = ''killall -9 webserverd'', pty = None\<rparr> = Raised \<and>
   length (trace_of (stop (abort_on_failure webserverd_not_running)) (session0 fabfile_env)) = 1 \<and>
   map command (trace_of (stop (abort_on_failure webserverd_not_running)) (session0 fabfile_env)) =
     [''killall -9 webserverd'']"
  unfolding stop_script trace_script
  by (simp add: abort_on_failure_def webserverd_not_running_def session0_def fabfile_env_def configure_def)

text \<open>
  C5. \<open>update\<close> issues fetch-and-install commands naming the module path of the
  collector and the module path of the webserver daemon and no other command:
  when \<open>run\<close> returns from the first, the calls are exactly the two, in
  this order; when \<open>run\<close> raises at the first, the first alone is issued and the
  exception leaves \<open>update\<close>. \<open>update\<close> returns exactly when \<open>run\<close> raises at neither.
\<close>

theorem update_issues:
  "let g1 = \<lparr>as_user = user (env s), scope = dirs s,
               command = ''go get -u github.com/timeredbull/tsuru/collector'', pty = None\<rparr>;
       g2 = \<lparr>as_user = user (env s), scope = dirs s,
               command = ''go get -u github.com/timeredbull/tsuru/api/webserverd'', pty = None\<rparr>
   in (h (issued s) g1 = Raised \<longrightarrow>
         trace_of (update h) s = [g1] \<and> fst (update h s) = Inl (Abort g1)) \<and>
      (h (issued s) g1 \<noteq> Raised \<longrightarrow> trace_of (update h) s = [g1, g2]) \<and>
      (fst (update h s) = Inr () \<longleftrightarrow>
         h (issued s) g1 \<noteq> Raised \<and> h (issued s @ [g1]) g2 \<noteq> Raised)"
  unfolding Let_def update_script trace_script fst_script
  by (simp split: reply.splits prod.splits)

theorem update_issues_witness:
  "always_succeeds []
     \<lparr>as_user = ''ubuntu'', scope = [],
         command = ''go get -u github.com/timeredbull/tsuru/collector'', pty = None\<rparr> \<noteq> Raised \<and>
   fst (update always_succeeds (session0 fabfile_env)) = Inr () \<and>
   trace_of (update always_succeeds) (session0 fabfile_env) =
     [\<lparr>as_user = ''ubuntu'', scope = [],
         command = ''go get -u github.com/timeredbull/tsuru/collector'', pty = None\<rparr>,
      \<lparr>as_user = ''ubuntu'', scope = [],
         command = ''go get -u github.com/timeredbull/tsuru/api/webserverd'', pty = None\<rparr>] \<and>
   abort_on_failure (command_fails ''go get -u github.com/timeredbull/tsuru/collector'') []
     \<lparr>as_user = ''ubuntu'', scope = [],
         command = ''go get -u github.com/timeredbull/tsuru/collector'', pty = None\<rparr> = Raised \<and>
   trace_of (update (abort_on_failure (command_fails ''go get -u github.com/timeredbull/tsuru/collector''))) (session0 fabfile_env) =
     [\<lparr>as_user = ''ubuntu'', scope = [],
         command = ''go get -u github.com/timeredbull/tsuru/collector'', pty = None\<rparr>] \<and>
   fst (update (abort_on_failure (command_fails ''go get -u github.com/timeredbull/tsuru/collector'')) (session0 fabfile_env)) =
     Inl (Abort \<lparr>as_user = ''ubuntu'', scope = [],
         command = ''go get -u github.com/timeredbull/tsuru/collector'', pty = None\<rparr>)"
  using update_issues [where h = always_succeeds and s = "session0 fabfile_env"]
    update_issues [where h = "abort_on_failure (command_fails ''go get -u github.com/timeredbull/tsuru/collector'')" and s = "session0 fabfile_env"]
  by (simp add: Let_def always_succeeds_def abort_on_failure_def command_fails_def session0_def
      fabfile_env_def configure_def)

text \<open>
  A run of \<open>update\<close> in which \<open>run\<close> raises at the first command: one command is
  issued, not two, and the second is never issued.
\<close>

theorem update_issues_counterexample:
  "abort_on_failure (command_fails ''go get -u github.com/timeredbull/tsuru/collector'') []
     \<lparr>as_user = ''ubuntu'', scope = [],
         command = ''go get -u github.com/timeredbull/tsuru/collector'', pty = None\<rparr> = Raised \<and>
   length (trace_of (update (abort_on_failure (command_fails ''go get -u github.com/timeredbull/tsuru/collector''))) (session0 fabfile_env)) = 1 \<and>
   map command (trace_of (update (abort_on_failure (command_fails ''go get -u github.com/timeredbull/tsuru/collector''))) (session0 fabfile_env)) =
     [''go get -u github.com/timeredbull/tsuru/collector'']"
  unfolding update_script trace_script
  by (simp add: abort_on_failure_def command_fails_def session0_def fabfile_env_def configure_def)

text \<open>
  C6. \<open>build\<close> issues compile commands and no other command, the first inside the
  configured collector directory with the output binary named \<open>collector\<close>, the
  second inside the configured webserver-daemon directory with the output binary
  named \<open>webserverd\<close>:
  when \<open>run\<close> returns from the first, the calls are exactly the two, in
  this order; when \<open>run\<close> raises at the first, the first alone is issued and the
  exception leaves \<open>build\<close>. \<open>build\<close> returns exactly when \<open>run\<close> raises at neither.
\<close>

theorem build_issues:
  "let b1 = \<lparr>as_user = user (env s), scope = dirs s @ [collector_path (env s)],
               command = ''go build -o collector main.go'', pty = None\<rparr>;
       b2 = \<lparr>as_user = user (env s), scope = dirs s @ [webserverd_path (env s)],
               command = ''go build -o webserverd main.go'', pty = None\<rparr>
   in (h (issued s) b1 = Raised \<longrightarrow>
         trace_of (build h) s = [b1] \<and> fst (build h s) = Inl (Abort b1)) \<and>
      (h (issued s) b1 \<noteq> Raised \<longrightarrow> trace_of (build h) s = [b1, b2]) \<and>
      (fst (build h s) = Inr () \<longleftrightarrow>
         h (issued s) b1 \<noteq> Raised \<and> h (issued s @ [b1]) b2 \<noteq> Raised)"
  unfolding Let_def build_script trace_script fst_script
  by (simp split: reply.splits prod.splits)

theorem build_issues_witness:
  "always_succeeds []
     \<lparr>as_user = ''ubuntu'', scope = [''/home/ubuntu/.go/src/github.com/timeredbull/tsuru/collector''],
         command = ''go build -o collector main.go'', pty = None\<rparr> \<noteq> Raised \<and>
   fst (build always_succeeds (session0 fabfile_env)) = Inr () \<and>
   trace_of (build always_succeeds) (session0 fabfile_env) =
     [\<lparr>as_user = ''ubuntu'', scope = [''/home/ubuntu/.go/src/github.com/timeredbull/tsuru/collector''],
         command = ''go build -o collector main.go'', pty = None\<rparr>,
      \<lparr>as_user = ''ubuntu'', scope = [''/home/ubuntu/.go/src/github.com/timeredbull/tsuru/api/webserverd''],
         command = ''go build -o webserverd main.go'', pty = None\<rparr>] \<and>
   abort_on_failure (command_fails ''go build -o collector main.go'') []
     \<lparr>as_user = ''ubuntu'', scope = [''/home/ubuntu/.go/src/github.com/timeredbull/tsuru/collector''],
         command = ''go build -o collector main.go'', pty = None\<rparr> = Raised \<and>
   trace_of (build (abort_on_failure (command_fails ''go build -o collector main.go''))) (session0 fabfile_env) =
     [\<lparr>as_user = ''ubuntu'', scope = [''/home/ubuntu/.go/src/github.com/timeredbull/tsuru/collector''],
         command = ''go build -o collector main.go'', pty = None\<rparr>] \<and>
   fst (build (abort_on_failure (command_fails ''go build -o collector main.go'')) (session0 fabfile_env)) =
     Inl (Abort \<lparr>as_user = ''ubuntu'', scope = [''/home/ubuntu/.go/src/github.com/timeredbull/tsuru/collector''],
         command = ''go build -o collector main.go'', pty = None\<rparr>)"
  using build_issues [where h = always_succeeds and s = "session0 fabfile_env"]
    build_issues [where h = "abort_on_failure (command_fails ''go build -o collector main.go'')" and s = "session0 fabfile_env"]
  by (simp add: Let_def always_succeeds_def abort_on_failure_def command_fails_def session0_def
      fabfile_env_def configure_def)

text \<open>
  A run of \<open>build\<close> in which \<open>run\<close> raises at the first command: one command is
  issued, not two, and the second is never issued.
\<close>

theorem build_issues_counterexample:
  "abort_on_failure (command_fails ''go build -o collector main.go'') []
     \<lparr>as_user = ''ubuntu'', scope = [''/home/ubuntu/.go/src/github.com/timeredbull/tsuru/collector''],
         command = ''go build -o collector main.go'', pty = None\<rparr> = Raised \<and>
   length (trace_of (build (abort_on_failure (command_fails ''go build -o collector main.go''))) (session0 fabfile_env)) = 1 \<and>
   map command (trace_of (build (abort_on_failure (command_fails ''go build -o collector main.go''))) (session0 fabfile_env)) =
     [''go build -o collector main.go'']"
  unfolding build_script trace_script
  by (simp add: abort_on_failure_def command_fails_def session0_def fabfile_env_def configure_def)

text \<open>
  C7. \<open>start\<close> issues detached launches and no other command, each with
  \<open>pty=False\<close> and with output, error output and input redirected to
  \<open>/dev/null\<close>, the first of the binary \<open>collector\<close> under the configured collector
  path, the second of the binary \<open>webserverd\<close> under the configured webserver-daemon
  path:
  when \<open>run\<close> returns from the first, the calls are exactly the two, in
  this order; when \<open>run\<close> raises at the first, the first alone is issued and the
  exception leaves \<open>start\<close>. \<open>start\<close> returns exactly when \<open>run\<close> raises at neither.
\<close>

theorem start_issues:
  "let l1 = \<lparr>as_user = user (env s), scope = dirs s,
               command = ''nohup '' @ collector_path (env s) @ ''/collector >& /dev/null < /dev/null &'',
               pty = Some False\<rparr>;
       l2 = \<lparr>as_user = user (env s), scope = dirs s,
               command = ''nohup '' @ webserverd_path (env s) @ ''/webserverd >& /dev/null < /dev/null &'',
               pty = Some False\<rparr>
   in (h (issued s) l1 = Raised \<longrightarrow>
         trace_of (start h) s = [l1] \<and> fst (start h s) = Inl (Abort l1)) \<and>
      (h (issued s) l1 \<noteq> Raised \<longrightarrow> trace_of (start h) s = [l1, l2]) \<and>
      (fst (start h s) = Inr () \<longleftrightarrow>
         h (issued s) l1 \<noteq> Raised \<and> h (issued s @ [l1]) l2 \<noteq> Raised)"
  unfolding Let_def start_script trace_script fst_script
  by (simp split: reply.splits prod.splits)

theorem start_issues_witness:
  "always_succeeds []
     \<lparr>as_user = ''ubuntu'', scope = [],
         command = ''nohup /home/ubuntu/.go/src/github.com/timeredbull/tsuru/collector/collector >& /dev/null < /dev/null &'',
         pty = Some False\<rparr> \<noteq> Raised \<and>
   fst (start always_succeeds (session0 fabfile_env)) = Inr () \<and>
   trace_of (start always_succeeds) (session0 fabfile_env) =
     [\<lparr>as_user = ''ubuntu'', scope = [],
         command = ''nohup /home/ubuntu/.go/src/github.com/timeredbull/tsuru/collector/collector >& /dev/null < /dev/null &'',
         pty = Some False\<rparr>,
      \<lparr>as_user = ''ubuntu'', scope = [],
         command = ''nohup /home/ubuntu/.go/src/github.com/timeredbull/tsuru/api/webserverd/webserverd >& /dev/null < /dev/null &'',
         pty = Some False\<rparr>] \<and>
   abort_on_failure (command_fails ''nohup /home/ubuntu/.go/src/github.com/timeredbull/tsuru/collector/collector >& /dev/null < /dev/null &'') []
     \<lparr>as_user = ''ubuntu'', scope = [],
         command = ''nohup /home/ubuntu/.go/src/github.com/timeredbull/tsuru/collector/collector >& /dev/null < /dev/null &'',
         pty = Some False\<rparr> = Raised \<and>
   trace_of (start (abort_on_failure (command_fails ''nohup /home/ubuntu/.go/src/github.com/timeredbull/tsuru/collector/collector >& /dev/null < /dev/null &''))) (session0 fabfile_env) =
     [\<lparr>as_user = ''ubuntu'', scope = [],
         command = ''nohup /home/ubuntu/.go/src/github.com/timeredbull/tsuru/collector/collector >& /dev/null < /dev/null &'',
         pty = Some False\<rparr>] \<and>
   fst (start (abort_on_failure (command_fails ''nohup /home/ubuntu/.go/src/github.com/timeredbull/tsuru/collector/collector >& /dev/null < /dev/null &'')) (session0 fabfile_env)) =
     Inl (Abort \<lparr>as_user = ''ubuntu'', scope = [],
         command = ''nohup /home/ubuntu/.go/src/github.com/timeredbull/tsuru/collector/collector >& /dev/null < /dev/null &'',
         pty = Some False\<rparr>)"
  using start_issues [where h = always_succeeds and s = "session0 fabfile_env"]
    start_issues [where h = "abort_on_failure (command_fails ''nohup /home/ubuntu/.go/src/github.com/timeredbull/tsuru/collector/collector >& /dev/null < /dev/null &'')" and s = "session0 fabfile_env"]
  by (simp add: Let_def always_succeeds_def abort_on_failure_def command_fails_def session0_def
      fabfile_env_def configure_def)

text \<open>
  A run of \<open>start\<close> in which \<open>run\<close> raises at the first command: one command is
  issued, not two, and the second is never issued.
\<close>

theorem start_issues_counterexample:
  "abort_on_failure (command_fails ''nohup /home/ubuntu/.go/src/github.com/timeredbull/tsuru/collector/collector >& /dev/null < /dev/null &'') []
     \<lparr>as_user = ''ubuntu'', scope = [],
         command = ''nohup /home/ubuntu/.go/src/github.com/timeredbull/tsuru/collector/collector >& /dev/null < /dev/null &'',
         pty = Some False\<rparr> = Raised \<and>
   length (trace_of (start (abort_on_failure (command_fails ''nohup /home/ubuntu/.go/src/github.com/timeredbull/tsuru/collector/collector >& /dev/null < /dev/null &''))) (session0 fabfile_env)) = 1 \<and>
   map command (trace_of (start (abort_on_failure (command_fails ''nohup /home/ubuntu/.go/src/github.com/timeredbull/tsuru/collector/collector >& /dev/null < /dev/null &''))) (session0 fabfile_env)) =
     [''nohup /home/ubuntu/.go/src/github.com/timeredbull/tsuru/collector/collector >& /dev/null < /dev/null &'']"
  unfolding start_script trace_script
  by (simp add: abort_on_failure_def command_fails_def session0_def fabfile_env_def configure_def)

text \<open>
  C9. \<open>stop\<close> issues its kill commands in one fixed order, whatever the host: the
  command killing \<open>webserverd\<close> is always the first call, and the command killing
  \<open>collector\<close> is issued only after it, as the second call.
\<close>

theorem stop_order:
  "(map command (trace_of (stop h) s) = [''killall -9 webserverd'', ''killall -9 collector''] \<or>
    map command (trace_of (stop h) s) = [''killall -9 webserverd'']) \<and>
   ((\<forall>b c. h b c \<noteq> Raised) \<longrightarrow>
      map command (trace_of (stop h) s) ! 0 = ''killall -9 webserverd'' \<and>
      map command (trace_of (stop h) s) ! 1 = ''killall -9 collector'' \<and>
      length (trace_of (stop h) s) = 2)"
proof -
  let ?k1 = "\<lparr>as_user = user (env s), scope = dirs s, command = ''killall -9 webserverd'', pty = None\<rparr>"
  let ?k2 = "\<lparr>as_user = user (env s), scope = dirs s, command = ''killall -9 collector'', pty = None\<rparr>"
  have tr: "trace_of (stop h) s = snd (issue h (issued s) [?k1, ?k2])"
    unfolding stop_script trace_script ..
  from issue_two [of h "issued s" ?k1 ?k2]
  have "map command (trace_of (stop h) s) = [''killall -9 webserverd'', ''killall -9 collector''] \<or>
      map command (trace_of (stop h) s) = [''killall -9 webserverd'']"
    unfolding tr by (auto simp del: issue.simps)
  moreover have "map command (trace_of (stop h) s) ! 0 = ''killall -9 webserverd'' \<and>
      map command (trace_of (stop h) s) ! 1 = ''killall -9 collector'' \<and>
      length (trace_of (stop h) s) = 2" if "\<forall>b c. h b c \<noteq> Raised"
    unfolding tr by (simp add: issue_returns [OF that] del: issue.simps)
  ultimately show ?thesis by blast
qed

theorem stop_order_witness:
  "(\<forall>b c. always_succeeds b c \<noteq> Raised) \<and>
   map command (trace_of (stop always_succeeds) (session0 fabfile_env)) ! 0 = ''killall -9 webserverd'' \<and>
   map command (trace_of (stop always_succeeds) (session0 fabfile_env)) ! 1 = ''killall -9 collector'' \<and>
   length (trace_of (stop always_succeeds) (session0 fabfile_env)) = 2"
  using stop_order [of always_succeeds "session0 fabfile_env"]
  by (simp add: always_succeeds_def)




text \<open>
  C2. \<open>deploy\<close> has no error handling of its own, and what follows a failing
  command is decided by the way \<open>run\<close> reports it. When \<open>run\<close> returns from every
  call, with whatever status, all eight commands are issued and \<open>deploy\<close> returns.
  When \<open>run\<close> raises at a call, that call is the last one issued: no later command
  of the phase or of a later phase is issued, and the exception leaves \<open>deploy\<close>.
  \<open>deploy\<close> ends with an exception only in this way.
\<close>

theorem deploy_no_error_handling:
  "let tr = trace_of (deploy h) s in
     ((\<forall>b c. h b c \<noteq> Raised) \<longrightarrow> fst (deploy h s) = Inr () \<and> length tr = 8) \<and>
     (\<forall>i. i < length tr \<and> h (issued s @ take i tr) (tr ! i) = Raised \<longrightarrow>
          Suc i = length tr \<and> fst (deploy h s) = Inl (Abort (tr ! i))) \<and>
     (\<forall>e. fst (deploy h s) = Inl e \<longrightarrow>
          tr \<noteq> [] \<and> e = Abort (last tr) \<and> h (issued s @ butlast tr) (last tr) = Raised)"
proof -
  have "(\<forall>b c. h b c \<noteq> Raised) \<longrightarrow>
      fst (deploy h s) = Inr () \<and> length (trace_of (deploy h) s) = 8"
    using script_returns [of "deploy h", OF deploy_script] by simp
  moreover have "\<forall>i. i < length (trace_of (deploy h) s) \<and>
      h (issued s @ take i (trace_of (deploy h) s)) (trace_of (deploy h) s ! i) = Raised \<longrightarrow>
      Suc i = length (trace_of (deploy h) s) \<and>
      fst (deploy h s) = Inl (Abort (trace_of (deploy h) s ! i))"
    using script_raise_last [of "deploy h", OF deploy_script] by blast
  moreover have "\<forall>e. fst (deploy h s) = Inl e \<longrightarrow>
      trace_of (deploy h) s \<noteq> [] \<and> e = Abort (last (trace_of (deploy h) s)) \<and>
      h (issued s @ butlast (trace_of (deploy h) s)) (last (trace_of (deploy h) s)) = Raised"
    using script_raised [of "deploy h", OF deploy_script] by blast
  ultimately show ?thesis unfolding Let_def by blast
qed

theorem deploy_no_error_handling_witness:
  "(\<forall>b c. warn_on_failure webserverd_not_running b c \<noteq> Raised) \<and>
   warn_on_failure webserverd_not_running []
     \<lparr>as_user = ''ubuntu'', scope = [], command = ''killall -9 webserverd'', pty = None\<rparr> =
     Returned False \<and>
   fst (deploy (warn_on_failure webserverd_not_running) (session0 fabfile_env)) = Inr () \<and>
   length (trace_of (deploy (warn_on_failure webserverd_not_running)) (session0 fabfile_env)) = 8 \<and>
   abort_on_failure webserverd_not_running []
     \<lparr>as_user = ''ubuntu'', scope = [], command = ''killall -9 webserverd'', pty = None\<rparr> =
     Raised \<and>
   length (trace_of (deploy (abort_on_failure webserverd_not_running)) (session0 fabfile_env)) = Suc 0 \<and>
   fst (deploy (abort_on_failure webserverd_not_running) (session0 fabfile_env)) =
     Inl (Abort \<lparr>as_user = ''ubuntu'', scope = [], command = ''killall -9 webserverd'', pty = None\<rparr>)"
proof -
  let ?warn = "warn_on_failure webserverd_not_running"
  let ?abort = "abort_on_failure webserverd_not_running"
  let ?kill = "\<lparr>as_user = ''ubuntu'', scope = [], command = ''killall -9 webserverd'', pty = None\<rparr>"
  have tr: "trace_of (deploy ?abort) (session0 fabfile_env) = [?kill]"
    by (simp add: deploy_aborted_run trace_of_def session0_sel)
  have raised: "?abort [] ?kill = Raised"
    by (simp add: abort_on_failure_def webserverd_not_running_def)
  have warn: "\<forall>b c. ?warn b c \<noteq> Raised"
    by (simp add: warn_on_failure_def)
  have failed: "?warn [] ?kill = Returned False"
    by (simp add: warn_on_failure_def webserverd_not_running_def)
  from deploy_no_error_handling [of ?warn "session0 fabfile_env"] warn
  have a: "fst (deploy ?warn (session0 fabfile_env)) = Inr () \<and>
      length (trace_of (deploy ?warn) (session0 fabfile_env)) = 8"
    unfolding Let_def by blast
  from deploy_no_error_handling [of ?abort "session0 fabfile_env"]
  have "0 < length (trace_of (deploy ?abort) (session0 fabfile_env)) \<and>
      ?abort (issued (session0 fabfile_env) @ take 0 (trace_of (deploy ?abort) (session0 fabfile_env)))
        (trace_of (deploy ?abort) (session0 fabfile_env) ! 0) = Raised \<longrightarrow>
      Suc 0 = length (trace_of (deploy ?abort) (session0 fabfile_env)) \<and>
      fst (deploy ?abort (session0 fabfile_env)) =
        Inl (Abort (trace_of (deploy ?abort) (session0 fabfile_env) ! 0))"
    unfolding Let_def by blast
  with raised have b: "length (trace_of (deploy ?abort) (session0 fabfile_env)) = Suc 0 \<and>
      fst (deploy ?abort (session0 fabfile_env)) = Inl (Abort ?kill)"
    by (simp add: tr session0_sel)
  from warn failed a raised b show ?thesis by blast
qed

text \<open>
  The run on a machine without a \<open>webserverd\<close> process, on which the library lets
  \<open>run\<close> raise for a failing command: the first command of \<open>stop\<close> fails, and
  neither the rest of \<open>stop\<close> nor \<open>update\<close>, \<open>build\<close> or \<open>start\<close> is run.
\<close>

theorem deploy_continues_counterexample:
  "abort_on_failure webserverd_not_running []
     \<lparr>as_user = ''ubuntu'', scope = [], command = ''killall -9 webserverd'', pty = None\<rparr> = Raised \<and>
   fst (deploy (abort_on_failure webserverd_not_running) (session0 fabfile_env)) =
     Inl (Abort \<lparr>as_user = ''ubuntu'', scope = [], command = ''killall -9 webserverd'', pty = None\<rparr>) \<and>
   trace_of (deploy (abort_on_failure webserverd_not_running)) (session0 fabfile_env) =
     [\<lparr>as_user = ''ubuntu'', scope = [], command = ''killall -9 webserverd'', pty = None\<rparr>] \<and>
   ''killall -9 collector'' \<notin>
     set (map command (trace_of (deploy (abort_on_failure webserverd_not_running)) (session0 fabfile_env))) \<and>
   ''go get -u github.com/timeredbull/tsuru/collector'' \<notin>
     set (map command (trace_of (deploy (abort_on_failure webserverd_not_running)) (session0 fabfile_env)))"
  by (simp add: deploy_aborted_run trace_of_def session0_sel abort_on_failure_def
      webserverd_not_running_def)

text \<open>
  C8. The configuration is built once from the fixed values of the script, and no
  task changes it: after \<open>stop\<close>, \<open>update\<close>, \<open>build\<close>, \<open>start\<close> and \<open>deploy\<close>,
  on every host and whether the task returns or raises, the user name, the root
  path and the two derived paths are what they were.
\<close>

theorem configuration_unchanged:
  "env (snd (stop h s)) = env s \<and>
   env (snd (update h s)) = env s \<and>
   env (snd (build h s)) = env s \<and>
   env (snd (start h s)) = env s \<and>
   env (snd (deploy h s)) = env s \<and>
   fabfile_env =
     \<lparr>user = ''ubuntu'',
        tsuru_path = ''/home/ubuntu/.go/src/github.com/timeredbull/tsuru'',
        collector_path = ''/home/ubuntu/.go/src/github.com/timeredbull/tsuru/collector'',
        webserverd_path = ''/home/ubuntu/.go/src/github.com/timeredbull/tsuru/api/webserverd''\<rparr>"
  by (simp add: stop_script update_script build_script start_script deploy_script
      env_script fabfile_env_def configure_def)

text \<open>
  C10. The two commands of \<open>update\<close> are fixed texts: under any two configurations,
  whatever their user names and root paths, \<open>update\<close> issues the same two command
  strings. \<open>build\<close> and \<open>start\<close> follow the root path: under two configurations
  with different root paths the directories \<open>build\<close> compiles in differ (its
  command texts are fixed) and the command strings of \<open>start\<close> differ.
\<close>

theorem update_ignores_configuration:
  assumes "\<forall>b c. h1 b c \<noteq> Raised" and "\<forall>b c. h2 b c \<noteq> Raised"
  shows "map command (trace_of (update h1) (session0 (configure u1 r1))) =
      map command (trace_of (update h2) (session0 (configure u2 r2))) \<and>
    map command (trace_of (update h1) (session0 (configure u1 r1))) =
      [''go get -u github.com/timeredbull/tsuru/collector'',
       ''go get -u github.com/timeredbull/tsuru/api/webserverd''] \<and>
    map command (trace_of (build h1) (session0 (configure u1 r1))) =
      map command (trace_of (build h2) (session0 (configure u2 r2))) \<and>
    (r1 \<noteq> r2 \<longrightarrow>
       map scope (trace_of (build h1) (session0 (configure u1 r1))) \<noteq>
         map scope (trace_of (build h2) (session0 (configure u2 r2))) \<and>
       map command (trace_of (start h1) (session0 (configure u1 r1))) \<noteq>
         map command (trace_of (start h2) (session0 (configure u2 r2))))"
  unfolding update_script build_script start_script trace_script
  by (simp add: issue_returns [OF assms(1)] issue_returns [OF assms(2)] session0_sel
      configure_def del: issue.simps)

theorem update_ignores_configuration_witness:
  "(\<forall>b c. always_succeeds b c \<noteq> Raised) \<and>
   ''/home/ubuntu/.go/src/github.com/timeredbull/tsuru'' \<noteq> ''/srv/tsuru'' \<and>
   map command (trace_of (update always_succeeds) (session0 (configure ''ubuntu'' ''/home/ubuntu/.go/src/github.com/timeredbull/tsuru''))) =
     map command (trace_of (update always_succeeds) (session0 (configure ''deploy'' ''/srv/tsuru''))) \<and>
   map scope (trace_of (build always_succeeds) (session0 (configure ''ubuntu'' ''/home/ubuntu/.go/src/github.com/timeredbull/tsuru''))) \<noteq>
     map scope (trace_of (build always_succeeds) (session0 (configure ''deploy'' ''/srv/tsuru''))) \<and>
   map command (trace_of (start always_succeeds) (session0 (configure ''ubuntu'' ''/home/ubuntu/.go/src/github.com/timeredbull/tsuru''))) \<noteq>
     map command (trace_of (start always_succeeds) (session0 (configure ''deploy'' ''/srv/tsuru'')))"
proof -
  have ok: "\<forall>b c. always_succeeds b c \<noteq> Raised"
    by (simp add: always_succeeds_def)
  have ne: "''/home/ubuntu/.go/src/github.com/timeredbull/tsuru'' \<noteq> ''/srv/tsuru''"
    by simp
  from ok ne update_ignores_configuration [OF ok ok, of "''ubuntu''" "''/home/ubuntu/.go/src/github.com/timeredbull/tsuru''" "''deploy''" "''/srv/tsuru''"]
  show ?thesis by blast
qed

end
